theory Spec2Isabelle
  imports Complex_Main
begin

section \<open>PriceTrek: storage, tracker, rule evaluation and notification fan-out\<close>

text \<open>
  A shallow embedding of the Go packages \<^verbatim>\<open>config\<close>, \<^verbatim>\<open>storage\<close>, \<^verbatim>\<open>tracker\<close> and
  \<^verbatim>\<open>notifications\<close> of PriceTrek.

  Conventions of the embedding:
  \<^item> a Go \<^verbatim>\<open>error\<close> is a value of \<open>error\<close>; \<^verbatim>\<open>fmt.Errorf("msg: %w", err)\<close> is \<open>Wrap msg err\<close>;
    a function returning \<^verbatim>\<open>(T, error)\<close> returns \<open>error + T\<close> and one returning only
    \<^verbatim>\<open>error\<close> returns \<open>error option\<close> next to the new state (\<open>None\<close> is \<^verbatim>\<open>nil\<close>);
  \<^item> a \<^verbatim>\<open>float64\<close> price or threshold is a \<open>real\<close> (a finite float, with rounding
    and overflow abstracted away); the one place where the code divides, the quotient of
    the percent-drop rule, is computed in \<open>f64\<close>, which adds the IEEE infinities and
    NaN that a division by zero produces;
  \<^item> a \<^verbatim>\<open>time.Time\<close> and a \<^verbatim>\<open>time.Duration\<close> are integers (nanoseconds);
  \<^item> a nilable pointer or map is an \<open>option\<close>;
  \<^item> the SQLite table \<^verbatim>\<open>prices\<close> is the list of its rows in insertion order;
  \<^item> what lies outside the repository's sources (the JSON codec of the standard
    library, the clock, the \<^verbatim>\<open>providers\<close> package, the notification transports) is
    a parameter of the functions that call it.
\<close>

subsection \<open>Errors\<close>

datatype error = Err string | Wrap string error

text \<open>The text of an error as \<^verbatim>\<open>%v\<close> prints it.\<close>

fun error_string :: "error \<Rightarrow> string" where
  "error_string (Err m) = m"
| "error_string (Wrap m e) = m @ '': '' @ error_string e"

subsection \<open>Package storage\<close>

text \<open>
  The values of a metadata map \<^verbatim>\<open>map[string]interface{}\<close>, as far as JSON can carry them.
\<close>

datatype jvalue =
    JNull
  | JBool bool
  | JNumber real
  | JString string
  | JArray "jvalue list"
  | JObject "(string \<times> jvalue) list"

type_synonym meta_map = "string \<rightharpoonup> jvalue"

text \<open>
  \<^verbatim>\<open>json.Marshal\<close> and \<^verbatim>\<open>json.Unmarshal\<close> of the standard library. \<open>Unmarshal\<close> decodes
  into a fresh \<^verbatim>\<open>nil\<close> map variable, as both readers of the table do.
\<close>

record json_codec =
  Marshal :: "meta_map \<Rightarrow> error + string"
  Unmarshal :: "string \<Rightarrow> error + meta_map option"

record PriceSample =
  ItemID :: string
  Time :: int
  Price :: real
  Currency :: string
  Meta :: "meta_map option"

text \<open>
  One row of the table \<^verbatim>\<open>prices (item_id, ts, price, currency, meta)\<close>; only \<^verbatim>\<open>meta\<close>
  may be \<^verbatim>\<open>NULL\<close>. The table has no \<^verbatim>\<open>CHECK\<close> constraint.
\<close>

record prices_row =
  item_id :: string
  ts :: int
  price :: real
  currency :: string
  meta :: "string option"

text \<open>
  The state behind \<^verbatim>\<open>sqliteStorage.db\<close>: the rows of \<^verbatim>\<open>prices\<close> in insertion order,
  and the error every statement fails with when the connection is unusable.
\<close>

record db =
  prices :: "prices_row list"
  conn_err :: "error option"

definition ExecInsert :: "db \<Rightarrow> prices_row \<Rightarrow> error + db" where
  "ExecInsert s r =
     (case conn_err s of
        Some err \<Rightarrow> Inl err
      | None \<Rightarrow> Inr (s\<lparr>prices := prices s @ [r]\<rparr>))"

text \<open>
  \<^verbatim>\<open>SELECT ... FROM prices WHERE item_id = ? ORDER BY ts DESC LIMIT ?\<close>. Rows with equal
  \<^verbatim>\<open>ts\<close> keep their insertion order; a negative \<^verbatim>\<open>LIMIT\<close> is no limit in SQLite.
\<close>

definition QueryPrices :: "db \<Rightarrow> string \<Rightarrow> int \<Rightarrow> error + prices_row list" where
  "QueryPrices s itemID limit =
     (case conn_err s of
        Some err \<Rightarrow> Inl err
      | None \<Rightarrow>
          (let rows = sort_key (\<lambda>r. - ts r) (filter (\<lambda>r. item_id r = itemID) (prices s))
           in Inr (if limit < 0 then rows else take (nat limit) rows)))"

text \<open>
  The first statement of \<^verbatim>\<open>SavePrice\<close>: \<^verbatim>\<open>metaJSON\<close> stays the empty string for a \<^verbatim>\<open>nil\<close>
  map and is the encoding of the map otherwise.
\<close>

definition marshalMeta :: "json_codec \<Rightarrow> meta_map option \<Rightarrow> error + string" where
  "marshalMeta codec meta' =
     (case meta' of
        None \<Rightarrow> Inr []
      | Some m \<Rightarrow>
          (case Marshal codec m of
             Inl err \<Rightarrow> Inl (Wrap ''failed to marshal meta'' err)
           | Inr metaBytes \<Rightarrow> Inr metaBytes))"

definition SavePrice ::
  "json_codec \<Rightarrow> int \<Rightarrow> db \<Rightarrow> string \<Rightarrow> real \<Rightarrow> string \<Rightarrow> meta_map option \<Rightarrow> error + db" where
  "SavePrice codec now s itemID price' currency' meta' =
     (case marshalMeta codec meta' of
        Inl err \<Rightarrow> Inl err
      | Inr metaJSON \<Rightarrow>
          (case ExecInsert s \<lparr>item_id = itemID, ts = now, price = price',
                               currency = currency', meta = Some metaJSON\<rparr> of
             Inl err \<Rightarrow> Inl (Wrap ''failed to save price'' err)
           | Inr s' \<Rightarrow> Inr s'))"

text \<open>
  \<^verbatim>\<open>rows.Scan\<close> followed by the decoding of the \<^verbatim>\<open>meta\<close> column, shared by \<^verbatim>\<open>GetPrices\<close>
  and \<^verbatim>\<open>GetLatestPrice\<close>: the column is decoded only when it is neither \<^verbatim>\<open>NULL\<close> nor
  the empty string.
\<close>

definition scanSample :: "json_codec \<Rightarrow> prices_row \<Rightarrow> error + PriceSample" where
  "scanSample codec r =
     (let sample = \<lparr>ItemID = item_id r, Time = ts r, Price = price r,
                     Currency = currency r, Meta = None\<rparr>
      in case meta r of
           None \<Rightarrow> Inr sample
         | Some metaJSON \<Rightarrow>
             (if metaJSON \<noteq> [] then
                (case Unmarshal codec metaJSON of
                   Inl err \<Rightarrow> Inl (Wrap ''failed to unmarshal meta'' err)
                 | Inr m \<Rightarrow> Inr (sample\<lparr>Meta := m\<rparr>))
              else Inr sample))"

text \<open>The loop \<^verbatim>\<open>for rows.Next()\<close> of \<^verbatim>\<open>GetPrices\<close>, appending to \<^verbatim>\<open>samples\<close>.\<close>

fun GetPrices_loop ::
  "json_codec \<Rightarrow> prices_row list \<Rightarrow> PriceSample list \<Rightarrow> error + PriceSample list" where
  "GetPrices_loop codec [] samples = Inr samples"
| "GetPrices_loop codec (r # rows) samples =
     (case scanSample codec r of
        Inl err \<Rightarrow> Inl err
      | Inr sample \<Rightarrow> GetPrices_loop codec rows (samples @ [sample]))"

definition GetPrices ::
  "json_codec \<Rightarrow> db \<Rightarrow> string \<Rightarrow> int \<Rightarrow> error + PriceSample list" where
  "GetPrices codec s itemID limit =
     (case QueryPrices s itemID limit of
        Inl err \<Rightarrow> Inl (Wrap ''failed to query prices'' err)
      | Inr rows \<Rightarrow> GetPrices_loop codec rows [])"

definition GetLatestPrice ::
  "json_codec \<Rightarrow> db \<Rightarrow> string \<Rightarrow> error + PriceSample option" where
  "GetLatestPrice codec s itemID =
     (case QueryPrices s itemID 1 of
        Inl err \<Rightarrow> Inl (Wrap ''failed to get latest price'' err)
      | Inr [] \<Rightarrow> Inr None
      | Inr (r # rest) \<Rightarrow>
          (case scanSample codec r of
             Inl err \<Rightarrow> Inl err
           | Inr sample \<Rightarrow> Inr (Some sample)))"



subsection \<open>Package config\<close>

text \<open>
  The structs of the configuration file. Go lets two structs share a field name; a record
  field is a constant, so the fields that would clash carry the name of their struct:
  \<open>ItemCurrency\<close> is \<^verbatim>\<open>ItemConfig.Currency\<close>, \<open>RulesPercentDrop\<close> is
  \<^verbatim>\<open>RulesConfig.PercentDrop\<close>, \<open>EmailEnabled\<close> is \<^verbatim>\<open>EmailConfig.Enabled\<close>, and so on.
\<close>

record StorageConfig =
  Driver :: string
  Path :: string

record RetryConfig =
  Attempts :: int
  BaseDelay :: int
  MaxDelay :: int

record HeadlessConfig =
  HeadlessEnabled :: bool
  WaitUntil :: string

record DefaultsConfig =
  DefaultsCurrency :: string
  Timezone :: string
  UserAgent :: string
  Retry :: RetryConfig
  HTTPTimeout :: int
  CacheTTL :: int
  Headless :: HeadlessConfig

record EmailConfig =
  EmailEnabled :: bool
  EmailFrom :: string
  EmailTo :: "string list"

record TelegramConfig =
  TelegramEnabled :: bool
  TelegramChatID :: string

record SlackConfig =
  SlackEnabled :: bool
  SlackWebhook :: string

record NtfyConfig =
  NtfyEnabled :: bool
  NtfyTopic :: string

record NotificationsConfig =
  Email :: EmailConfig
  Telegram :: TelegramConfig
  Slack :: SlackConfig
  Ntfy :: NtfyConfig

record RulesConfig =
  RulesPercentDrop :: real
  RulesTargetPrice :: "real option"

record ItemConfig =
  ID :: string
  Name :: string
  URL :: string
  Provider :: string
  Selector :: string
  ItemCurrency :: string
  TargetPrice :: "real option"
  PercentDrop :: "real option"
  Schedule :: string
  Regex :: string
  Attr :: string
  Command :: string

record Config =
  Storage :: StorageConfig
  Defaults :: DefaultsConfig
  Notifications :: NotificationsConfig
  Rules :: RulesConfig
  Items :: "ItemConfig list"

text \<open>The durations of the defaults, in nanoseconds.\<close>

definition Millisecond :: int where "Millisecond = 1000000"
definition Second :: int where "Second = 1000 * Millisecond"
definition Minute :: int where "Minute = 60 * Second"

text \<open>
  What \<^verbatim>\<open>Load\<close> finds at the path: no file, a file it cannot read, a file that is not
  YAML for a \<^verbatim>\<open>Config\<close>, or the \<^verbatim>\<open>Config\<close> that \<^verbatim>\<open>yaml.Unmarshal\<close> produced.
\<close>

datatype config_file =
    FileNotFound
  | ReadFailed error
  | ParseFailed error
  | Parsed Config

text \<open>The section \<^verbatim>\<open>// Set defaults\<close> of \<^verbatim>\<open>Load\<close>, one function for each \<^verbatim>\<open>if\<close>.\<close>

definition defaultDriver :: "Config \<Rightarrow> Config" where
  "defaultDriver cfg =
     (if Driver (Storage cfg) = [] then cfg\<lparr>Storage := (Storage cfg)\<lparr>Driver := ''sqlite''\<rparr>\<rparr>
      else cfg)"

definition defaultPath :: "Config \<Rightarrow> Config" where
  "defaultPath cfg =
     (if Path (Storage cfg) = [] then cfg\<lparr>Storage := (Storage cfg)\<lparr>Path := ''./data/trek.db''\<rparr>\<rparr>
      else cfg)"

definition defaultCurrency :: "Config \<Rightarrow> Config" where
  "defaultCurrency cfg =
     (if DefaultsCurrency (Defaults cfg) = []
      then cfg\<lparr>Defaults := (Defaults cfg)\<lparr>DefaultsCurrency := ''USD''\<rparr>\<rparr>
      else cfg)"

definition defaultTimezone :: "Config \<Rightarrow> Config" where
  "defaultTimezone cfg =
     (if Timezone (Defaults cfg) = [] then cfg\<lparr>Defaults := (Defaults cfg)\<lparr>Timezone := ''UTC''\<rparr>\<rparr>
      else cfg)"

definition defaultUserAgent :: "Config \<Rightarrow> Config" where
  "defaultUserAgent cfg =
     (if UserAgent (Defaults cfg) = []
      then cfg\<lparr>Defaults := (Defaults cfg)
              \<lparr>UserAgent := ''PriceTrek/0.1 (+https://github.com/makalin/pricetrek)''\<rparr>\<rparr>
      else cfg)"

definition defaultAttempts :: "Config \<Rightarrow> Config" where
  "defaultAttempts cfg =
     (if Attempts (Retry (Defaults cfg)) = 0
      then cfg\<lparr>Defaults := (Defaults cfg)\<lparr>Retry := (Retry (Defaults cfg))\<lparr>Attempts := 3\<rparr>\<rparr>\<rparr>
      else cfg)"

definition defaultBaseDelay :: "Config \<Rightarrow> Config" where
  "defaultBaseDelay cfg =
     (if BaseDelay (Retry (Defaults cfg)) = 0
      then cfg\<lparr>Defaults := (Defaults cfg)
              \<lparr>Retry := (Retry (Defaults cfg))\<lparr>BaseDelay := 800 * Millisecond\<rparr>\<rparr>\<rparr>
      else cfg)"

definition defaultMaxDelay :: "Config \<Rightarrow> Config" where
  "defaultMaxDelay cfg =
     (if MaxDelay (Retry (Defaults cfg)) = 0
      then cfg\<lparr>Defaults := (Defaults cfg)
              \<lparr>Retry := (Retry (Defaults cfg))\<lparr>MaxDelay := 7 * Second\<rparr>\<rparr>\<rparr>
      else cfg)"

definition defaultHTTPTimeout :: "Config \<Rightarrow> Config" where
  "defaultHTTPTimeout cfg =
     (if HTTPTimeout (Defaults cfg) = 0
      then cfg\<lparr>Defaults := (Defaults cfg)\<lparr>HTTPTimeout := 20 * Second\<rparr>\<rparr>
      else cfg)"

definition defaultCacheTTL :: "Config \<Rightarrow> Config" where
  "defaultCacheTTL cfg =
     (if CacheTTL (Defaults cfg) = 0
      then cfg\<lparr>Defaults := (Defaults cfg)\<lparr>CacheTTL := 30 * Minute\<rparr>\<rparr>
      else cfg)"

definition defaultWaitUntil :: "Config \<Rightarrow> Config" where
  "defaultWaitUntil cfg =
     (if WaitUntil (Headless (Defaults cfg)) = []
      then cfg\<lparr>Defaults := (Defaults cfg)
              \<lparr>Headless := (Headless (Defaults cfg))\<lparr>WaitUntil := ''networkidle''\<rparr>\<rparr>\<rparr>
      else cfg)"

definition defaultPercentDrop :: "Config \<Rightarrow> Config" where
  "defaultPercentDrop cfg =
     (if RulesPercentDrop (Rules cfg) = 0
      then cfg\<lparr>Rules := (Rules cfg)\<lparr>RulesPercentDrop := 8\<rparr>\<rparr>
      else cfg)"

definition setDefaults :: "Config \<Rightarrow> Config" where
  "setDefaults cfg =
     defaultPercentDrop (defaultWaitUntil (defaultCacheTTL (defaultHTTPTimeout
       (defaultMaxDelay (defaultBaseDelay (defaultAttempts (defaultUserAgent
         (defaultTimezone (defaultCurrency (defaultPath (defaultDriver cfg)))))))))))"

definition Load :: "string \<Rightarrow> config_file \<Rightarrow> error + Config" where
  "Load path' file =
     (case file of
        FileNotFound \<Rightarrow> Inl (Err (''configuration file not found: '' @ path'))
      | ReadFailed err \<Rightarrow> Inl (Wrap ''failed to read config file'' err)
      | ParseFailed err \<Rightarrow> Inl (Wrap ''failed to parse config file'' err)
      | Parsed cfg \<Rightarrow> Inr (setDefaults cfg))"

subsection \<open>Division of floats\<close>

text \<open>
  The result of a \<^verbatim>\<open>float64\<close> expression that may divide by zero: a finite value, an
  infinity or NaN. A division of finite operands follows IEEE 754 (no panic in Go); a
  comparison with NaN is false.
\<close>

datatype f64 = Finite real | PosInf | NegInf | NaN

definition f64_div :: "real \<Rightarrow> real \<Rightarrow> f64" where
  "f64_div x y =
     (if y = 0 then (if 0 < x then PosInf else if x < 0 then NegInf else NaN)
      else Finite (x / y))"

fun f64_mul :: "f64 \<Rightarrow> real \<Rightarrow> f64" where
  "f64_mul (Finite x) c = Finite (x * c)"
| "f64_mul PosInf c = (if 0 < c then PosInf else if c < 0 then NegInf else NaN)"
| "f64_mul NegInf c = (if 0 < c then NegInf else if c < 0 then PosInf else NaN)"
| "f64_mul NaN c = NaN"

fun f64_ge :: "f64 \<Rightarrow> real \<Rightarrow> bool" where
  "f64_ge (Finite x) t = (t \<le> x)"
| "f64_ge PosInf t = True"
| "f64_ge NegInf t = False"
| "f64_ge NaN t = False"

subsection \<open>Package logger\<close>

text \<open>
  A record written by the \<^verbatim>\<open>slog\<close> text handler to standard error: level, message and
  the key/value arguments. The handler's level is \<^verbatim>\<open>Debug\<close> when \<open>verbose\<close> and \<^verbatim>\<open>Info\<close>
  otherwise, so a \<^verbatim>\<open>Debug\<close> record is written only when \<open>verbose\<close>.
\<close>

datatype log_level = LevelDebug | LevelInfo | LevelError

datatype log_value = VString string | VFloat f64 | VError error

datatype log_entry = LogEntry log_level string "(string \<times> log_value) list"

record Logger =
  verbose :: bool

definition Debug ::
  "Logger \<Rightarrow> string \<Rightarrow> (string \<times> log_value) list \<Rightarrow> log_entry list \<Rightarrow> log_entry list" where
  "Debug l msg args out = (if verbose l then out @ [LogEntry LevelDebug msg args] else out)"

definition Info ::
  "Logger \<Rightarrow> string \<Rightarrow> (string \<times> log_value) list \<Rightarrow> log_entry list \<Rightarrow> log_entry list" where
  "Info l msg args out = out @ [LogEntry LevelInfo msg args]"

definition Error ::
  "Logger \<Rightarrow> string \<Rightarrow> (string \<times> log_value) list \<Rightarrow> log_entry list \<Rightarrow> log_entry list" where
  "Error l msg args out = out @ [LogEntry LevelError msg args]"

subsection \<open>Package tracker\<close>

text \<open>
  The package \<^verbatim>\<open>providers\<close> is not among the sources: \<^verbatim>\<open>providers.GetProvider\<close> and the
  \<^verbatim>\<open>Fetch\<close> method of the provider it returns are parameters, and so are the JSON codec
  and the clock. \<open>clock k\<close> is what \<^verbatim>\<open>time.Now()\<close> returns in the \<open>k\<close>-th call of
  \<^verbatim>\<open>SavePrice\<close>. The sample a provider returns has the fields that \<^verbatim>\<open>TrackItem\<close> reads.
\<close>

datatype provider = ProviderFor string

record FetchedSample =
  SamplePrice :: real
  SampleCurrency :: string
  SampleMeta :: "meta_map option"

record env =
  GetProvider :: "string \<Rightarrow> DefaultsConfig \<Rightarrow> error + provider"
  Fetch :: "provider \<Rightarrow> ItemConfig \<Rightarrow> error + FetchedSample"
  jsonCodec :: json_codec
  clock :: "nat \<Rightarrow> int"

record Tracker =
  config :: Config
  logger :: Logger

text \<open>
  What a call of the tracker changes: the database behind \<^verbatim>\<open>t.storage\<close>, the number of
  calls of \<^verbatim>\<open>SavePrice\<close> so far, and the records logged.
\<close>

record world =
  store :: db
  ticks :: nat
  logs :: "log_entry list"

text \<open>\<^verbatim>\<open>t.storage.SavePrice\<close> on the world: the Go method with its clock reading.\<close>

definition storageSavePrice ::
  "env \<Rightarrow> world \<Rightarrow> string \<Rightarrow> real \<Rightarrow> string \<Rightarrow> meta_map option \<Rightarrow> error option \<times> world" where
  "storageSavePrice e w itemID price' currency' meta' =
     (case SavePrice (jsonCodec e) (clock e (ticks w)) (store w) itemID price' currency' meta' of
        Inl err \<Rightarrow> (Some err, w\<lparr>ticks := Suc (ticks w)\<rparr>)
      | Inr s' \<Rightarrow> (None, w\<lparr>store := s', ticks := Suc (ticks w)\<rparr>))"

definition TrackItem :: "env \<Rightarrow> Tracker \<Rightarrow> world \<Rightarrow> ItemConfig \<Rightarrow> error option \<times> world" where
  "TrackItem e t w item =
     (let w0 = w\<lparr>logs := Debug (logger t) ''Tracking item''
                   [(''id'', VString (ID item)), (''name'', VString (Name item))] (logs w)\<rparr>
      in case GetProvider e (Provider item) (Defaults (config t)) of
           Inl err \<Rightarrow> (Some (Wrap ''failed to get provider'' err), w0)
         | Inr provider \<Rightarrow>
             (case Fetch e provider item of
                Inl err \<Rightarrow> (Some (Wrap ''failed to fetch price'' err), w0)
              | Inr sample \<Rightarrow>
                  (case storageSavePrice e w0 (ID item) (SamplePrice sample)
                          (SampleCurrency sample) (SampleMeta sample) of
                     (Some err, w1) \<Rightarrow> (Some (Wrap ''failed to save price'' err), w1)
                   | (None, w1) \<Rightarrow>
                       (None, w1\<lparr>logs := Info (logger t) ''Price tracked''
                                   [(''item'', VString (ID item)),
                                    (''price'', VFloat (Finite (SamplePrice sample))),
                                    (''currency'', VString (SampleCurrency sample))]
                                   (logs w1)\<rparr>))))"

text \<open>The loop \<^verbatim>\<open>for _, item := range t.config.Items\<close> of \<^verbatim>\<open>TrackAll\<close>.\<close>

fun TrackAll_loop :: "env \<Rightarrow> Tracker \<Rightarrow> ItemConfig list \<Rightarrow> world \<Rightarrow> world" where
  "TrackAll_loop e t [] w = w"
| "TrackAll_loop e t (item # items) w =
     (case TrackItem e t w item of
        (Some err, w1) \<Rightarrow>
          TrackAll_loop e t items
            (w1\<lparr>logs := Error (logger t) ''Failed to track item''
                   [(''item'', VString (ID item)), (''error'', VError err)] (logs w1)\<rparr>)
      | (None, w1) \<Rightarrow> TrackAll_loop e t items w1)"

definition TrackAll :: "env \<Rightarrow> Tracker \<Rightarrow> world \<Rightarrow> error option \<times> world" where
  "TrackAll e t w =
     (let w0 = w\<lparr>logs := Info (logger t) ''Starting price tracking for all items'' [] (logs w)\<rparr>;
          w1 = TrackAll_loop e t (Items (config t)) w0
      in (None, w1\<lparr>logs := Info (logger t) ''Price tracking completed'' [] (logs w1)\<rparr>))"

text \<open>
  The threshold that \<^verbatim>\<open>checkItemAlerts\<close> resolves into \<^verbatim>\<open>percentDrop\<close>: the item's own when
  the pointer is set, the rule of the configuration otherwise.
\<close>

definition effectivePercentDrop :: "Tracker \<Rightarrow> ItemConfig \<Rightarrow> real" where
  "effectivePercentDrop t item =
     (case PercentDrop item of
        None \<Rightarrow> RulesPercentDrop (Rules (config t))
      | Some p \<Rightarrow> p)"

text \<open>\<^verbatim>\<open>((previousPrice - latest.Price) / previousPrice) * 100\<close>.\<close>

definition dropPercentOf :: "real \<Rightarrow> real \<Rightarrow> f64" where
  "dropPercentOf previousPrice latestPrice =
     f64_mul (f64_div (previousPrice - latestPrice) previousPrice) 100"

text \<open>
  \<^verbatim>\<open>checkItemAlerts\<close>. The two alerts are the \<^verbatim>\<open>Info\<close> records \<^verbatim>\<open>"Target price reached"\<close>
  and \<^verbatim>\<open>"Price drop alert"\<close>: the source sends no notification (\<^verbatim>\<open>// TODO\<close>).
\<close>

definition checkItemAlerts ::
  "env \<Rightarrow> Tracker \<Rightarrow> world \<Rightarrow> ItemConfig \<Rightarrow> error option \<times> world" where
  "checkItemAlerts e t w item =
     (case GetLatestPrice (jsonCodec e) (store w) (ID item) of
        Inl err \<Rightarrow> (Some (Wrap ''failed to get latest price'' err), w)
      | Inr None \<Rightarrow> (None, w)
      | Inr (Some latest) \<Rightarrow>
          (case GetPrices (jsonCodec e) (store w) (ID item) 5 of
             Inl err \<Rightarrow> (Some (Wrap ''failed to get price history'' err), w)
           | Inr prices' \<Rightarrow>
               (if length prices' < 2 then (None, w)
                else
                  (let w1 =
                         (case TargetPrice item of
                            None \<Rightarrow> w
                          | Some target \<Rightarrow>
                              (if Price latest \<le> target
                               then w\<lparr>logs := Info (logger t) ''Target price reached''
                                         [(''item'', VString (ID item)),
                                          (''current'', VFloat (Finite (Price latest))),
                                          (''target'', VFloat (Finite target))] (logs w)\<rparr>
                               else w));
                       percentDrop = effectivePercentDrop t item
                   in if 0 < percentDrop then
                        (let previousPrice = Price (prices' ! 1);
                             dropPercent = dropPercentOf previousPrice (Price latest)
                         in if f64_ge dropPercent percentDrop
                            then (None, w1\<lparr>logs := Info (logger t) ''Price drop alert''
                                           [(''item'', VString (ID item)),
                                            (''current'', VFloat (Finite (Price latest))),
                                            (''previous'', VFloat (Finite previousPrice)),
                                            (''drop_percent'', VFloat dropPercent)] (logs w1)\<rparr>)
                            else (None, w1))
                      else (None, w1)))))"

text \<open>The loop of \<^verbatim>\<open>CheckAlerts\<close> over the configured items.\<close>

fun CheckAlerts_loop :: "env \<Rightarrow> Tracker \<Rightarrow> ItemConfig list \<Rightarrow> world \<Rightarrow> world" where
  "CheckAlerts_loop e t [] w = w"
| "CheckAlerts_loop e t (item # items) w =
     (case checkItemAlerts e t w item of
        (Some err, w1) \<Rightarrow>
          CheckAlerts_loop e t items
            (w1\<lparr>logs := Error (logger t) ''Failed to check alerts for item''
                   [(''item'', VString (ID item)), (''error'', VError err)] (logs w1)\<rparr>)
      | (None, w1) \<Rightarrow> CheckAlerts_loop e t items w1)"

definition CheckAlerts :: "env \<Rightarrow> Tracker \<Rightarrow> world \<Rightarrow> error option \<times> world" where
  "CheckAlerts e t w =
     (let w0 = w\<lparr>logs := Info (logger t) ''Checking price alerts'' [] (logs w)\<rparr>
      in (None, CheckAlerts_loop e t (Items (config t)) w0))"

text \<open>The records that a call added to the log, and their messages.\<close>

definition emitted :: "world \<Rightarrow> world \<Rightarrow> log_entry list" where
  "emitted w w' = drop (length (logs w)) (logs w')"

fun entry_msg :: "log_entry \<Rightarrow> string" where
  "entry_msg (LogEntry lv msg args) = msg"

definition alerts :: "world \<Rightarrow> world \<Rightarrow> string list" where
  "alerts w w' =
     filter (\<lambda>m. m = ''Target price reached'' \<or> m = ''Price drop alert'')
       (map entry_msg (emitted w w'))"

text \<open>The number of \<^verbatim>\<open>"Failed to track item"\<close> records in a log.\<close>

definition failures :: "log_entry list \<Rightarrow> nat" where
  "failures xs = length (filter (\<lambda>x. entry_msg x = ''Failed to track item'') xs)"

subsection \<open>Package notifications\<close>

datatype Notifier =
    EmailNotifier string "string list"
  | TelegramNotifier string
  | SlackNotifier string
  | NtfyNotifier string

record NotificationManager =
  notifiers :: "Notifier list"

text \<open>\<^verbatim>\<open>notifications.New\<close>: one notifier for each enabled channel, in this order.\<close>

definition NewNotificationManager :: "Config \<Rightarrow> NotificationManager" where
  "NewNotificationManager cfg =
     \<lparr>notifiers =
        (if EmailEnabled (Email (Notifications cfg))
         then [EmailNotifier (EmailFrom (Email (Notifications cfg)))
                 (EmailTo (Email (Notifications cfg)))]
         else []) @
        (if TelegramEnabled (Telegram (Notifications cfg))
         then [TelegramNotifier (TelegramChatID (Telegram (Notifications cfg)))]
         else []) @
        (if SlackEnabled (Slack (Notifications cfg))
         then [SlackNotifier (SlackWebhook (Slack (Notifications cfg)))]
         else []) @
        (if NtfyEnabled (Ntfy (Notifications cfg))
         then [NtfyNotifier (NtfyTopic (Ntfy (Notifications cfg)))]
         else [])\<rparr>"

text \<open>
  The \<^verbatim>\<open>Send\<close> methods of the four notifiers as the file of \<^verbatim>\<open>NotificationManager\<close>
  declares them: none is implemented there, each returns an error.
\<close>

fun notifierSend :: "Notifier \<Rightarrow> string \<Rightarrow> error option" where
  "notifierSend (EmailNotifier from' to') message =
     Some (Err ''email notification not implemented yet'')"
| "notifierSend (TelegramNotifier chatID) message =
     Some (Err ''telegram notification not implemented yet'')"
| "notifierSend (SlackNotifier webhook) message =
     Some (Err ''slack notification not implemented yet'')"
| "notifierSend (NtfyNotifier topic) message =
     Some (Err ''ntfy notification not implemented yet'')"

text \<open>
  What \<^verbatim>\<open>NotificationManager.Send\<close> changes: the deliveries attempted, in order, and the
  lines written to standard error.
\<close>

record outbox =
  attempts :: "(Notifier \<times> string) list"
  stderr :: "string list"

text \<open>
  The loop of \<^verbatim>\<open>NotificationManager.Send\<close>; \<open>send\<close> is the \<^verbatim>\<open>Send\<close> method of the
  \<^verbatim>\<open>Notifier\<close> interface (the transports are other files' business).
\<close>

fun Send_loop ::
  "(Notifier \<Rightarrow> string \<Rightarrow> error option) \<Rightarrow> Notifier list \<Rightarrow> string \<Rightarrow> outbox \<Rightarrow> outbox" where
  "Send_loop send [] message out = out"
| "Send_loop send (notifier # rest) message out =
     (let out1 = out\<lparr>attempts := attempts out @ [(notifier, message)]\<rparr>
      in case send notifier message of
           Some err \<Rightarrow>
             Send_loop send rest message
               (out1\<lparr>stderr := stderr out1 @
                  [''Failed to send notification: '' @ error_string err @ [CHR 0x0A]]\<rparr>)
         | None \<Rightarrow> Send_loop send rest message out1)"

definition Send ::
  "(Notifier \<Rightarrow> string \<Rightarrow> error option) \<Rightarrow> NotificationManager \<Rightarrow> string \<Rightarrow> outbox
     \<Rightarrow> error option \<times> outbox" where
  "Send send nm message out = (None, Send_loop send (notifiers nm) message out)"

subsection \<open>Retry backoff\<close>

text \<open>
  Modelled from the spec: the delay that the resilience wrapper waits before try \<open>n\<close>.
  The wrapper belongs to the package \<^verbatim>\<open>providers\<close>, which is not among the sources; only
  its configuration \<^verbatim>\<open>RetryConfig\<close> and the defaults that \<^verbatim>\<open>Load\<close> gives it are. The
  spec's words: the delay before try \<open>n\<close> (\<open>n \<ge> 2\<close>) is
  \<^verbatim>\<open>min(maxDelay, baseDelay * 2^(n-2)) + uniformRandom(0, baseDelay)\<close>. The random draw is
  the argument \<open>jitter\<close>.
\<close>

definition backoffBase :: "RetryConfig \<Rightarrow> nat \<Rightarrow> int" where
  "backoffBase rc n = min (MaxDelay rc) (BaseDelay rc * 2 ^ (n - 2))"

text \<open>
  Modelled from the spec: the exponential term \<open>backoffBase\<close> above is the first summand
  of the spec's formula, and the delay is that term plus the jitter drawn for the try.
\<close>

definition backoffDelay :: "RetryConfig \<Rightarrow> nat \<Rightarrow> int \<Rightarrow> int" where
  "backoffDelay rc n jitter = backoffBase rc n + jitter"

text \<open>
  Modelled from the spec: the expected delay before try \<open>n\<close>, the mean of \<open>backoffDelay\<close>
  over the \<open>baseDelay + 1\<close> equally likely draws \<open>0, 1, ..., baseDelay\<close> (in nanoseconds)
  of \<^verbatim>\<open>uniformRandom(0, baseDelay)\<close>.
\<close>

definition expectedDelay :: "RetryConfig \<Rightarrow> nat \<Rightarrow> real" where
  "expectedDelay rc n =
     real_of_int (\<Sum>j = 0..BaseDelay rc. backoffDelay rc n j) / real_of_int (BaseDelay rc + 1)"

subsection \<open>Values used in the examples\<close>

text \<open>
  A codec for the examples. It carries the \<^verbatim>\<open>in_stock\<close> flag of a map and nothing else:
  a map is encoded when it holds the flag, and the two texts it produces are the only
  ones it decodes.
\<close>

definition inStockCodec :: json_codec where
  \<open>inStockCodec =
     \<lparr>Marshal = (\<lambda>m.
        case m ''in_stock'' of
          Some (JBool b) \<Rightarrow>
            Inr (if b then ''{"in_stock":true}'' else ''{"in_stock":false}'')
        | _ \<Rightarrow> Inl (Err ''json: unsupported value'')),
      Unmarshal = (\<lambda>s.
        if s = ''{"in_stock":true}'' then Inr (Some [''in_stock'' \<mapsto> JBool True])
        else if s = ''{"in_stock":false}'' then Inr (Some [''in_stock'' \<mapsto> JBool False])
        else Inl (Err ''invalid character''))\<rparr>\<close>

text \<open>The zero values of \<^verbatim>\<open>Config\<close> and \<^verbatim>\<open>ItemConfig\<close>, and an empty database.\<close>

definition zeroConfig :: Config where
  "zeroConfig =
     \<lparr>Storage = \<lparr>Driver = [], Path = []\<rparr>,
      Defaults = \<lparr>DefaultsCurrency = [], Timezone = [], UserAgent = [],
                  Retry = \<lparr>Attempts = 0, BaseDelay = 0, MaxDelay = 0\<rparr>,
                  HTTPTimeout = 0, CacheTTL = 0,
                  Headless = \<lparr>HeadlessEnabled = False, WaitUntil = []\<rparr>\<rparr>,
      Notifications = \<lparr>Email = \<lparr>EmailEnabled = False, EmailFrom = [], EmailTo = []\<rparr>,
                       Telegram = \<lparr>TelegramEnabled = False, TelegramChatID = []\<rparr>,
                       Slack = \<lparr>SlackEnabled = False, SlackWebhook = []\<rparr>,
                       Ntfy = \<lparr>NtfyEnabled = False, NtfyTopic = []\<rparr>\<rparr>,
      Rules = \<lparr>RulesPercentDrop = 0, RulesTargetPrice = None\<rparr>,
      Items = []\<rparr>"

definition zeroItem :: ItemConfig where
  "zeroItem =
     \<lparr>ID = [], Name = [], URL = [], Provider = [], Selector = [], ItemCurrency = [],
      TargetPrice = None, PercentDrop = None, Schedule = [], Regex = [], Attr = [],
      Command = []\<rparr>"

definition emptyWorld :: world where
  "emptyWorld = \<lparr>store = \<lparr>prices = [], conn_err = None\<rparr>, ticks = 0, logs = []\<rparr>"

text \<open>
  An environment for the examples: the provider \<^verbatim>\<open>generic\<close> is the only one, a fetch
  returns what the table \<open>results\<close> holds for the item's id, and the \<open>k\<close>-th clock
  reading is \<open>start + k\<close>.
\<close>

definition tableEnv :: "(string \<Rightarrow> error + FetchedSample) \<Rightarrow> int \<Rightarrow> env" where
  "tableEnv results start =
     \<lparr>GetProvider = (\<lambda>name defaults.
        if name = ''generic'' then Inr (ProviderFor name)
        else Inl (Err (''unknown provider: '' @ name))),
      Fetch = (\<lambda>p item. results (ID item)),
      jsonCodec = inStockCodec,
      clock = (\<lambda>k. start + int k)\<rparr>"

text \<open>A tracker over the defaults of \<^verbatim>\<open>Load\<close> and the given items, not verbose.\<close>

definition trackerOf :: "ItemConfig list \<Rightarrow> Tracker" where
  "trackerOf items = \<lparr>config = (setDefaults zeroConfig)\<lparr>Items := items\<rparr>,
                        logger = \<lparr>verbose = False\<rparr>\<rparr>"

text \<open>
  Three configured items for the provider \<^verbatim>\<open>generic\<close>, and two tables of fetch results:
  in the first the fetch of item \<^verbatim>\<open>b\<close> always fails, in the second no fetch fails.
\<close>

definition threeItems :: "ItemConfig list" where
  "threeItems =
     [zeroItem\<lparr>ID := ''a'', Provider := ''generic'', ItemCurrency := ''USD''\<rparr>,
      zeroItem\<lparr>ID := ''b'', Provider := ''generic'', ItemCurrency := ''USD''\<rparr>,
      zeroItem\<lparr>ID := ''c'', Provider := ''generic'', ItemCurrency := ''USD''\<rparr>]"

definition oneDown :: "string \<Rightarrow> error + FetchedSample" where
  "oneDown itemID =
     (if itemID = ''b'' then Inl (Err ''connection refused'')
      else Inr \<lparr>SamplePrice = 10, SampleCurrency = ''USD'', SampleMeta = None\<rparr>)"

definition allUp :: "string \<Rightarrow> error + FetchedSample" where
  "allUp itemID = Inr \<lparr>SamplePrice = 10, SampleCurrency = ''USD'', SampleMeta = None\<rparr>"

text \<open>
  The item \<^verbatim>\<open>ssd\<close> with a target price of 50 and no threshold of its own, a row of its
  history, a world whose table holds the given rows, and the table of fetch results that
  returns one price and currency for every item.
\<close>

definition ssdItem :: ItemConfig where
  "ssdItem = zeroItem\<lparr>ID := ''ssd'', Provider := ''generic'', ItemCurrency := ''USD'',
                       TargetPrice := Some 50\<rparr>"

definition ssdRow :: "int \<Rightarrow> real \<Rightarrow> string \<Rightarrow> prices_row" where
  "ssdRow t p c = \<lparr>item_id = ''ssd'', ts = t, price = p, currency = c, meta = Some []\<rparr>"

definition worldWith :: "prices_row list \<Rightarrow> world" where
  "worldWith rows = \<lparr>store = \<lparr>prices = rows, conn_err = None\<rparr>, ticks = 0, logs = []\<rparr>"

definition fetches :: "real \<Rightarrow> string \<Rightarrow> string \<Rightarrow> error + FetchedSample" where
  "fetches p c itemID = Inr \<lparr>SamplePrice = p, SampleCurrency = c, SampleMeta = None\<rparr>"

section \<open>Properties\<close>

subsection \<open>Storage\<close>

lemmas storage_unfold =
  GetPrices_def GetLatestPrice_def QueryPrices_def scanSample_def

text \<open>
  What the loop of \<^verbatim>\<open>GetPrices\<close> returns: the samples collected so far, followed by the
  scan of each row, in order.
\<close>

lemma GetPrices_loop_acc:
  "GetPrices_loop codec rows acc = Inr res \<Longrightarrow>
   \<exists>ss. res = acc @ ss \<and> length ss = length rows \<and>
        (\<forall>i < length rows. scanSample codec (rows ! i) = Inr (ss ! i))"
proof (induction rows arbitrary: acc)
  case Nil
  then show ?case by simp
next
  case (Cons r rows)
  from Cons.prems obtain s where s: "scanSample codec r = Inr s"
    and rest: "GetPrices_loop codec rows (acc @ [s]) = Inr res"
    by (auto split: sum.splits)
  from Cons.IH[OF rest] obtain ss where ss: "res = (acc @ [s]) @ ss" "length ss = length rows"
    "\<forall>i < length rows. scanSample codec (rows ! i) = Inr (ss ! i)" by blast
  show ?case
  proof (intro exI[of _ "s # ss"] conjI allI impI)
    show "res = acc @ s # ss" using ss(1) by simp
    show "length (s # ss) = length (r # rows)" using ss(2) by simp
    fix i assume "i < length (r # rows)"
    then show "scanSample codec ((r # rows) ! i) = Inr ((s # ss) ! i)"
      using s ss(3) by (cases i) auto
  qed
qed

text \<open>
  \<^verbatim>\<open>GetLatestPrice\<close> reads the row that \<^verbatim>\<open>GetPrices\<close> puts first, so \<^verbatim>\<open>latest\<close> in
  \<^verbatim>\<open>checkItemAlerts\<close> is \<^verbatim>\<open>prices[0]\<close>.
\<close>

lemma GetPrices_head_is_latest:
  assumes "GetPrices codec s itemID 5 = Inr (cur # rest)"
  shows "GetLatestPrice codec s itemID = Inr (Some cur)"
proof -
  from assms have c: "conn_err s = None"
    by (auto simp add: GetPrices_def QueryPrices_def split: option.splits)
  define rows where "rows = sort_key (\<lambda>r. - ts r) (filter (\<lambda>r. item_id r = itemID) (prices s))"
  have q5: "QueryPrices s itemID 5 = Inr (take 5 rows)"
    using c by (simp add: QueryPrices_def rows_def)
  have q1: "QueryPrices s itemID 1 = Inr (take 1 rows)"
    using c by (simp add: QueryPrices_def rows_def)
  from assms q5 have l: "GetPrices_loop codec (take 5 rows) [] = Inr (cur # rest)"
    by (simp add: GetPrices_def)
  from GetPrices_loop_acc[OF l] obtain ss where ss: "cur # rest = ss"
    "length ss = length (take 5 rows)"
    "\<forall>i < length (take 5 rows). scanSample codec (take 5 rows ! i) = Inr (ss ! i)" by auto
  from ss(1,2) have ne: "rows \<noteq> []" by auto
  then obtain r rs where r: "rows = r # rs" by (cases rows) auto
  from ss(3) r ss(1) have "scanSample codec r = Inr cur" by fastforce
  then show ?thesis using q1 r by (simp add: GetLatestPrice_def)
qed

lemma GetPrices_empty_no_latest:
  assumes "GetPrices codec s itemID 5 = Inr []"
  shows "GetLatestPrice codec s itemID = Inr None"
proof -
  from assms have c: "conn_err s = None"
    by (auto simp add: GetPrices_def QueryPrices_def split: option.splits)
  define rows where "rows = sort_key (\<lambda>r. - ts r) (filter (\<lambda>r. item_id r = itemID) (prices s))"
  have q5: "QueryPrices s itemID 5 = Inr (take 5 rows)"
    using c by (simp add: QueryPrices_def rows_def)
  have q1: "QueryPrices s itemID 1 = Inr (take 1 rows)"
    using c by (simp add: QueryPrices_def rows_def)
  from assms q5 have l: "GetPrices_loop codec (take 5 rows) [] = Inr []"
    by (simp add: GetPrices_def)
  from GetPrices_loop_acc[OF l] have "length (take 5 rows) = 0" by auto
  then have "rows = []" by (cases rows) auto
  then show ?thesis using q1 by (simp add: GetLatestPrice_def)
qed





subsection \<open>Rule evaluation\<close>

text \<open>
  \<^verbatim>\<open>Load\<close> changes the rules of the configuration in one place: a percent drop of 0
  becomes 8.
\<close>

lemma defaults_keep_Rules:
  "Rules (defaultDriver cfg) = Rules cfg"
  "Rules (defaultPath cfg) = Rules cfg"
  "Rules (defaultCurrency cfg) = Rules cfg"
  "Rules (defaultTimezone cfg) = Rules cfg"
  "Rules (defaultUserAgent cfg) = Rules cfg"
  "Rules (defaultAttempts cfg) = Rules cfg"
  "Rules (defaultBaseDelay cfg) = Rules cfg"
  "Rules (defaultMaxDelay cfg) = Rules cfg"
  "Rules (defaultHTTPTimeout cfg) = Rules cfg"
  "Rules (defaultCacheTTL cfg) = Rules cfg"
  "Rules (defaultWaitUntil cfg) = Rules cfg"
  by (simp_all add: defaultDriver_def defaultPath_def defaultCurrency_def defaultTimezone_def
      defaultUserAgent_def defaultAttempts_def defaultBaseDelay_def defaultMaxDelay_def
      defaultHTTPTimeout_def defaultCacheTTL_def defaultWaitUntil_def)

lemma setDefaults_percent_drop:
  "RulesPercentDrop (Rules (setDefaults cfg)) =
     (if RulesPercentDrop (Rules cfg) = 0 then 8 else RulesPercentDrop (Rules cfg))"
  by (simp add: setDefaults_def defaultPercentDrop_def defaults_keep_Rules)

text \<open>
  The quotient of the percent-drop rule: the real quotient when the previous price is
  not 0; minus infinity or NaN, which no threshold is below, when the previous price is 0
  and the current price is not negative.
\<close>

lemma dropPercentOf_nonzero:
  "prev \<noteq> 0 \<Longrightarrow> dropPercentOf prev cur = Finite ((prev - cur) / prev * 100)"
  by (simp add: dropPercentOf_def f64_div_def)


text \<open>
  \<^verbatim>\<open>checkItemAlerts\<close> on a history of at least two samples, and on a shorter one.
\<close>

lemma emitted_append: "logs w' = logs w @ xs \<Longrightarrow> emitted w w' = xs"
  by (simp add: emitted_def)

lemma checkItemAlerts_history:
  assumes "GetPrices (jsonCodec e) (store w) (ID item) 5 = Inr (cur # prev # rest)"
  shows "checkItemAlerts e t w item =
     (None, w\<lparr>logs := logs w @
        (case TargetPrice item of
           None \<Rightarrow> []
         | Some target \<Rightarrow>
             (if Price cur \<le> target
              then [LogEntry LevelInfo ''Target price reached''
                      [(''item'', VString (ID item)),
                       (''current'', VFloat (Finite (Price cur))),
                       (''target'', VFloat (Finite target))]]
              else [])) @
        (if 0 < effectivePercentDrop t item \<and>
            f64_ge (dropPercentOf (Price prev) (Price cur)) (effectivePercentDrop t item)
         then [LogEntry LevelInfo ''Price drop alert''
                 [(''item'', VString (ID item)),
                  (''current'', VFloat (Finite (Price cur))),
                  (''previous'', VFloat (Finite (Price prev))),
                  (''drop_percent'', VFloat (dropPercentOf (Price prev) (Price cur)))]]
         else [])\<rparr>)"
  using assms GetPrices_head_is_latest[OF assms]
  by (simp add: checkItemAlerts_def Let_def Info_def split: option.splits)

lemma checkItemAlerts_short_history:
  assumes "GetPrices (jsonCodec e) (store w) (ID item) 5 = Inr ps" and "length ps < 2"
  shows "checkItemAlerts e t w item = (None, w)"
proof (cases ps)
  case Nil
  with assms(1) GetPrices_empty_no_latest[of "jsonCodec e" "store w" "ID item"]
  show ?thesis by (simp add: checkItemAlerts_def)
next
  case (Cons p ps')
  with assms GetPrices_head_is_latest[of "jsonCodec e" "store w" "ID item" p ps']
  show ?thesis by (simp add: checkItemAlerts_def)
qed

lemma alerts_history:
  assumes "GetPrices (jsonCodec e) (store w) (ID item) 5 = Inr (cur # prev # rest)"
  shows "alerts w (snd (checkItemAlerts e t w item)) =
     (case TargetPrice item of
        None \<Rightarrow> []
      | Some target \<Rightarrow> (if Price cur \<le> target then [''Target price reached''] else [])) @
     (if 0 < effectivePercentDrop t item \<and>
         f64_ge (dropPercentOf (Price prev) (Price cur)) (effectivePercentDrop t item)
      then [''Price drop alert''] else [])"
  by (simp add: checkItemAlerts_history[OF assms] alerts_def emitted_def split: option.splits)


lemma target_alert_iff:
  assumes "GetPrices (jsonCodec e) (store w) (ID item) 5 = Inr (cur # prev # rest)"
    and "TargetPrice item = Some target"
  shows "(''Target price reached'' \<in> set (alerts w (snd (checkItemAlerts e t w item)))) =
         (Price cur \<le> target)"
  using assms(2) by (simp add: alerts_history[OF assms(1)])

text \<open>
  The item \<^verbatim>\<open>ssd\<close> of the examples, under the defaults of \<^verbatim>\<open>Load\<close>.
\<close>

lemma ssd_target: "TargetPrice ssdItem = Some 50"
  by (simp add: ssdItem_def zeroItem_def)

lemma ssd_threshold: "effectivePercentDrop (trackerOf [ssdItem]) ssdItem = 8"
  by (simp add: effectivePercentDrop_def ssdItem_def zeroItem_def trackerOf_def
      setDefaults_percent_drop zeroConfig_def)












text \<open>
  A history of one sample, and one of two.
\<close>

lemma history_single:
  "GetPrices (jsonCodec (tableEnv allUp 100))
     (store (worldWith [ssdRow 1 50 ''USD''])) (ID ssdItem) 5 =
   Inr [\<lparr>ItemID = ''ssd'', Time = 1, Price = 50, Currency = ''USD'', Meta = None\<rparr>]"
  by (simp add: storage_unfold worldWith_def ssdRow_def ssdItem_def zeroItem_def tableEnv_def)

lemma history_100_50:
  "GetPrices (jsonCodec (tableEnv allUp 100))
     (store (worldWith [ssdRow 1 51 ''USD'', ssdRow 2 50 ''USD''])) (ID ssdItem) 5 =
   Inr [\<lparr>ItemID = ''ssd'', Time = 2, Price = 50, Currency = ''USD'', Meta = None\<rparr>,
        \<lparr>ItemID = ''ssd'', Time = 1, Price = 51, Currency = ''USD'', Meta = None\<rparr>]"
  by (simp add: storage_unfold worldWith_def ssdRow_def ssdItem_def zeroItem_def tableEnv_def)

text \<open>
  Claim C2 on the code: an item with a target price of 50 whose history is the single
  sample at 50. \<^verbatim>\<open>GetLatestPrice\<close> returns that sample, whose price is not above the
  target, and \<^verbatim>\<open>checkItemAlerts\<close> returns before the target check, having logged
  nothing: the return for fewer than two prices precedes both rules.
\<close>

theorem target_reached_needs_predecessor:
  "TargetPrice ssdItem = Some 50 \<and>
   GetLatestPrice (jsonCodec (tableEnv allUp 100)) (store (worldWith [ssdRow 1 50 ''USD'']))
     (ID ssdItem) =
   Inr (Some \<lparr>ItemID = ''ssd'', Time = 1, Price = 50, Currency = ''USD'', Meta = None\<rparr>) \<and>
   checkItemAlerts (tableEnv allUp 100) (trackerOf [ssdItem])
     (worldWith [ssdRow 1 50 ''USD'']) ssdItem = (None, worldWith [ssdRow 1 50 ''USD''])"
  using GetPrices_head_is_latest[OF history_single]
    checkItemAlerts_short_history[OF history_single, of "trackerOf [ssdItem]"]
  by (simp add: ssd_target)

text \<open>
  With a predecessor in the history the same price of 50 does raise the alert: the
  boundary is inclusive.
\<close>

lemma target_reached_inclusive_with_predecessor:
  "alerts (worldWith [ssdRow 1 51 ''USD'', ssdRow 2 50 ''USD''])
     (snd (checkItemAlerts (tableEnv allUp 100) (trackerOf [ssdItem])
        (worldWith [ssdRow 1 51 ''USD'', ssdRow 2 50 ''USD'']) ssdItem)) =
   [''Target price reached'']"
  unfolding alerts_history[OF history_100_50]
  by (simp add: ssd_target ssd_threshold dropPercentOf_nonzero)

subsection \<open>Tracker\<close>

lemmas TrackItem_unfold =
  TrackItem_def Let_def storageSavePrice_def SavePrice_def ExecInsert_def

lemma storageSavePrice_ok:
  assumes "marshalMeta (jsonCodec e) m = Inr metaJSON" and "conn_err (store w) = None"
  shows "storageSavePrice e w itemID p c m =
     (None, w\<lparr>store := (store w)\<lparr>prices := prices (store w) @
        [\<lparr>item_id = itemID, ts = clock e (ticks w), price = p, currency = c,
          meta = Some metaJSON\<rparr>]\<rparr>, ticks := Suc (ticks w)\<rparr>)"
  using assms by (simp add: storageSavePrice_def SavePrice_def ExecInsert_def)

text \<open>
  The successful path of \<^verbatim>\<open>TrackItem\<close>: one row appended, one clock reading consumed,
  the two log calls.
\<close>

lemma TrackItem_ok:
  assumes "GetProvider e (Provider item) (Defaults (config t)) = Inr p"
    and "Fetch e p item = Inr sample"
    and "marshalMeta (jsonCodec e) (SampleMeta sample) = Inr metaJSON"
    and "conn_err (store w) = None"
  shows "TrackItem e t w item =
     (None, w\<lparr>store := (store w)\<lparr>prices := prices (store w) @
                 [\<lparr>item_id = ID item, ts = clock e (ticks w), price = SamplePrice sample,
                   currency = SampleCurrency sample, meta = Some metaJSON\<rparr>]\<rparr>,
               ticks := Suc (ticks w),
               logs := Info (logger t) ''Price tracked''
                         [(''item'', VString (ID item)),
                          (''price'', VFloat (Finite (SamplePrice sample))),
                          (''currency'', VString (SampleCurrency sample))]
                         (Debug (logger t) ''Tracking item''
                            [(''id'', VString (ID item)), (''name'', VString (Name item))]
                            (logs w))\<rparr>)"
  using assms by (simp add: TrackItem_def Let_def storageSavePrice_ok)

text \<open>
  \<^verbatim>\<open>TrackItem\<close> logs nothing but \<^verbatim>\<open>"Tracking item"\<close> and \<^verbatim>\<open>"Price tracked"\<close>: no alert.
\<close>

lemma TrackItem_logs:
  "\<exists>xs. logs (snd (TrackItem e t w item)) = logs w @ xs \<and>
        set (map entry_msg xs) \<subseteq> {''Tracking item'', ''Price tracked''}"
  by (auto simp add: TrackItem_def Let_def storageSavePrice_def Debug_def Info_def
      split: sum.splits option.splits prod.splits)

lemma TrackItem_no_alerts: "alerts w (snd (TrackItem e t w item)) = []"
proof -
  obtain xs where xs: "logs (snd (TrackItem e t w item)) = logs w @ xs"
    and m: "set (map entry_msg xs) \<subseteq> {''Tracking item'', ''Price tracked''}"
    using TrackItem_logs by blast
  have "filter (\<lambda>m. m = ''Target price reached'' \<or> m = ''Price drop alert'') (map entry_msg xs) = []"
    using m by (auto simp add: filter_empty_conv)
  then show ?thesis using xs by (simp add: alerts_def emitted_append)
qed

text \<open>
  Claim C10. When the provider lookup fails, or the lookup succeeds and the fetch fails,
  \<^verbatim>\<open>TrackItem\<close> returns the error of the failed step wrapped by \<^verbatim>\<open>%w\<close> under the step's
  message, and the database is the one it was before the call: no row is written.
\<close>

theorem TrackItem_failure_writes_nothing:
  "(GetProvider e (Provider item) (Defaults (config t)) = Inl err \<longrightarrow>
      fst (TrackItem e t w item) = Some (Wrap ''failed to get provider'' err) \<and>
      store (snd (TrackItem e t w item)) = store w) \<and>
   (GetProvider e (Provider item) (Defaults (config t)) = Inr p \<and> Fetch e p item = Inl err \<longrightarrow>
      fst (TrackItem e t w item) = Some (Wrap ''failed to fetch price'' err) \<and>
      store (snd (TrackItem e t w item)) = store w)"
  by (simp add: TrackItem_def Let_def)

text \<open>
  Two instances over a history of one sample: an item whose provider \<^verbatim>\<open>scraper\<close> is
  unknown, and item \<^verbatim>\<open>b\<close> whose fetch is refused.
\<close>

theorem TrackItem_failure_writes_nothing_witness:
  "GetProvider (tableEnv oneDown 100) (Provider (ssdItem\<lparr>Provider := ''scraper''\<rparr>))
     (Defaults (config (trackerOf threeItems))) = Inl (Err ''unknown provider: scraper'') \<and>
   fst (TrackItem (tableEnv oneDown 100) (trackerOf threeItems)
          (worldWith [ssdRow 1 100 ''USD'']) (ssdItem\<lparr>Provider := ''scraper''\<rparr>)) =
     Some (Wrap ''failed to get provider'' (Err ''unknown provider: scraper'')) \<and>
   store (snd (TrackItem (tableEnv oneDown 100) (trackerOf threeItems)
          (worldWith [ssdRow 1 100 ''USD'']) (ssdItem\<lparr>Provider := ''scraper''\<rparr>))) =
     store (worldWith [ssdRow 1 100 ''USD'']) \<and>
   GetProvider (tableEnv oneDown 100) (Provider (threeItems ! 1))
     (Defaults (config (trackerOf threeItems))) = Inr (ProviderFor ''generic'') \<and>
   Fetch (tableEnv oneDown 100) (ProviderFor ''generic'') (threeItems ! 1) =
     Inl (Err ''connection refused'') \<and>
   fst (TrackItem (tableEnv oneDown 100) (trackerOf threeItems)
          (worldWith [ssdRow 1 100 ''USD'']) (threeItems ! 1)) =
     Some (Wrap ''failed to fetch price'' (Err ''connection refused'')) \<and>
   store (snd (TrackItem (tableEnv oneDown 100) (trackerOf threeItems)
          (worldWith [ssdRow 1 100 ''USD'']) (threeItems ! 1))) =
     store (worldWith [ssdRow 1 100 ''USD''])"
proof -
  have g1: "GetProvider (tableEnv oneDown 100) (Provider (ssdItem\<lparr>Provider := ''scraper''\<rparr>))
     (Defaults (config (trackerOf threeItems))) = Inl (Err ''unknown provider: scraper'')"
    by (simp add: tableEnv_def)
  have g2: "GetProvider (tableEnv oneDown 100) (Provider (threeItems ! 1))
     (Defaults (config (trackerOf threeItems))) = Inr (ProviderFor ''generic'')"
    by (simp add: tableEnv_def threeItems_def zeroItem_def)
  have f2: "Fetch (tableEnv oneDown 100) (ProviderFor ''generic'') (threeItems ! 1) =
     Inl (Err ''connection refused'')"
    by (simp add: tableEnv_def threeItems_def zeroItem_def oneDown_def)
  show ?thesis
    using g1 g2 f2
      TrackItem_failure_writes_nothing[of "tableEnv oneDown 100"
        "ssdItem\<lparr>Provider := ''scraper''\<rparr>" "trackerOf threeItems"
        "Err ''unknown provider: scraper''" "worldWith [ssdRow 1 100 ''USD'']"]
      TrackItem_failure_writes_nothing[of "tableEnv oneDown 100"
        "threeItems ! 1" "trackerOf threeItems"
        "Err ''connection refused''" "worldWith [ssdRow 1 100 ''USD'']" "ProviderFor ''generic''"]
    by simp
qed

lemma ssd_fetch_40:
  "TrackItem (tableEnv (fetches 40 ''USD'') 100) (trackerOf [ssdItem])
     (worldWith [ssdRow 1 100 ''USD'']) ssdItem =
   (None, \<lparr>store = \<lparr>prices = [ssdRow 1 100 ''USD'', ssdRow 100 40 ''USD''], conn_err = None\<rparr>,
           ticks = 1,
           logs = [LogEntry LevelInfo ''Price tracked''
                     [(''item'', VString ''ssd''), (''price'', VFloat (Finite 40)),
                      (''currency'', VString ''USD'')]]\<rparr>)"
  by (simp add: TrackItem_unfold tableEnv_def fetches_def trackerOf_def worldWith_def
      ssdItem_def zeroItem_def ssdRow_def marshalMeta_def Debug_def Info_def)

text \<open>
  Claim C3, as the code has it. When the provider is found, the fetch succeeds, the
  metadata can be encoded and the connection works, \<^verbatim>\<open>TrackItem\<close> returns \<^verbatim>\<open>nil\<close>, it has
  appended exactly one row that holds the fetched price and currency under the clock
  reading of the write, and it has logged \<^verbatim>\<open>"Price tracked"\<close> (after \<^verbatim>\<open>"Tracking item"\<close>
  when verbose) and nothing else: it does not evaluate the alert rules, which is the
  separate operation \<^verbatim>\<open>CheckAlerts\<close>.
\<close>

theorem TrackItem_appends_without_evaluation:
  assumes "GetProvider e (Provider item) (Defaults (config t)) = Inr p"
    and "Fetch e p item = Inr sample"
    and "marshalMeta (jsonCodec e) (SampleMeta sample) = Inr metaJSON"
    and "conn_err (store w) = None"
  shows "fst (TrackItem e t w item) = None \<and>
         prices (store (snd (TrackItem e t w item))) =
           prices (store w) @
           [\<lparr>item_id = ID item, ts = clock e (ticks w), price = SamplePrice sample,
             currency = SampleCurrency sample, meta = Some metaJSON\<rparr>] \<and>
         map entry_msg (emitted w (snd (TrackItem e t w item))) =
           (if verbose (logger t) then [''Tracking item''] else []) @ [''Price tracked''] \<and>
         alerts w (snd (TrackItem e t w item)) = []"
  by (simp add: TrackItem_ok[OF assms] Info_def Debug_def emitted_def alerts_def)

text \<open>
  An instance: the item \<^verbatim>\<open>ssd\<close> with a history of one sample at 100, fetched at 40.
\<close>

theorem TrackItem_appends_without_evaluation_witness:
  "GetProvider (tableEnv (fetches 40 ''USD'') 100) (Provider ssdItem)
     (Defaults (config (trackerOf [ssdItem]))) = Inr (ProviderFor ''generic'') \<and>
   Fetch (tableEnv (fetches 40 ''USD'') 100) (ProviderFor ''generic'') ssdItem =
     Inr \<lparr>SamplePrice = 40, SampleCurrency = ''USD'', SampleMeta = None\<rparr> \<and>
   marshalMeta (jsonCodec (tableEnv (fetches 40 ''USD'') 100)) None = Inr [] \<and>
   conn_err (store (worldWith [ssdRow 1 100 ''USD''])) = None \<and>
   fst (TrackItem (tableEnv (fetches 40 ''USD'') 100) (trackerOf [ssdItem])
          (worldWith [ssdRow 1 100 ''USD'']) ssdItem) = None \<and>
   prices (store (snd (TrackItem (tableEnv (fetches 40 ''USD'') 100) (trackerOf [ssdItem])
          (worldWith [ssdRow 1 100 ''USD'']) ssdItem))) =
     [ssdRow 1 100 ''USD'', ssdRow 100 40 ''USD''] \<and>
   alerts (worldWith [ssdRow 1 100 ''USD''])
     (snd (TrackItem (tableEnv (fetches 40 ''USD'') 100) (trackerOf [ssdItem])
            (worldWith [ssdRow 1 100 ''USD'']) ssdItem)) = []"
proof -
  have g: "GetProvider (tableEnv (fetches 40 ''USD'') 100) (Provider ssdItem)
     (Defaults (config (trackerOf [ssdItem]))) = Inr (ProviderFor ''generic'')"
    by (simp add: tableEnv_def ssdItem_def zeroItem_def)
  have f: "Fetch (tableEnv (fetches 40 ''USD'') 100) (ProviderFor ''generic'') ssdItem =
     Inr \<lparr>SamplePrice = 40, SampleCurrency = ''USD'', SampleMeta = None\<rparr>"
    by (simp add: tableEnv_def fetches_def)
  have m: "marshalMeta (jsonCodec (tableEnv (fetches 40 ''USD'') 100))
     (SampleMeta \<lparr>SamplePrice = 40, SampleCurrency = ''USD'', SampleMeta = None\<rparr>) = Inr []"
    by (simp add: marshalMeta_def)
  have c: "conn_err (store (worldWith [ssdRow 1 100 ''USD''])) = None"
    by (simp add: worldWith_def)
  have i: "ID ssdItem = ''ssd''" by (simp add: ssdItem_def zeroItem_def)
  show ?thesis
    using g f m c TrackItem_appends_without_evaluation[OF g f m c]
    by (simp add: worldWith_def tableEnv_def ssdRow_def i)
qed

text \<open>
  The claim as the spec states it fails on that instance. The call succeeds and emits no
  alert, although the rule evaluation run on the world it leaves behind emits both: 40
  is below the target of 50, and the drop from 100 is 60 percent.
\<close>

theorem TrackItem_evaluation_counterexample:
  "fst (TrackItem (tableEnv (fetches 40 ''USD'') 100) (trackerOf [ssdItem])
          (worldWith [ssdRow 1 100 ''USD'']) ssdItem) = None \<and>
   alerts (worldWith [ssdRow 1 100 ''USD''])
     (snd (TrackItem (tableEnv (fetches 40 ''USD'') 100) (trackerOf [ssdItem])
            (worldWith [ssdRow 1 100 ''USD'']) ssdItem)) = [] \<and>
   alerts
     (snd (TrackItem (tableEnv (fetches 40 ''USD'') 100) (trackerOf [ssdItem])
            (worldWith [ssdRow 1 100 ''USD'']) ssdItem))
     (snd (checkItemAlerts (tableEnv (fetches 40 ''USD'') 100) (trackerOf [ssdItem])
            (snd (TrackItem (tableEnv (fetches 40 ''USD'') 100) (trackerOf [ssdItem])
                   (worldWith [ssdRow 1 100 ''USD'']) ssdItem))
            ssdItem)) =
   [''Target price reached'', ''Price drop alert'']"
proof -
  let ?w' = "\<lparr>store = \<lparr>prices = [ssdRow 1 100 ''USD'', ssdRow 100 40 ''USD''], conn_err = None\<rparr>,
           ticks = 1,
           logs = [LogEntry LevelInfo ''Price tracked''
                     [(''item'', VString ''ssd''), (''price'', VFloat (Finite 40)),
                      (''currency'', VString ''USD'')]]\<rparr>"
  have h: "GetPrices (jsonCodec (tableEnv (fetches 40 ''USD'') 100)) (store ?w') (ID ssdItem) 5 =
     Inr [\<lparr>ItemID = ''ssd'', Time = 100, Price = 40, Currency = ''USD'', Meta = None\<rparr>,
          \<lparr>ItemID = ''ssd'', Time = 1, Price = 100, Currency = ''USD'', Meta = None\<rparr>]"
    by (simp add: storage_unfold ssdRow_def ssdItem_def zeroItem_def tableEnv_def)
  have a: "alerts ?w' (snd (checkItemAlerts (tableEnv (fetches 40 ''USD'') 100)
             (trackerOf [ssdItem]) ?w' ssdItem)) = [''Target price reached'', ''Price drop alert'']"
    unfolding alerts_history[OF h]
    by (simp add: ssd_target ssd_threshold dropPercentOf_nonzero)
  have b: "alerts (worldWith [ssdRow 1 100 ''USD'']) ?w' = []"
    by (simp add: alerts_def emitted_def worldWith_def)
  show ?thesis
    unfolding ssd_fetch_40 using a b by simp
qed




text \<open>
  Whether \<^verbatim>\<open>TrackItem\<close> fails depends on the world only through the state of the
  connection, which it leaves as it is; it appends a row for the item exactly when it
  succeeds, and it never logs \<^verbatim>\<open>"Failed to track item"\<close> itself.
\<close>

lemma TrackItem_status_conn:
  "conn_err (store w1) = conn_err (store w2) \<Longrightarrow>
   fst (TrackItem e t w1 item) = fst (TrackItem e t w2 item)"
  by (simp add: TrackItem_unfold split: sum.splits option.splits)

lemma TrackItem_conn_err:
  "conn_err (store (snd (TrackItem e t w item))) = conn_err (store w)"
  by (simp add: TrackItem_unfold split: sum.splits option.splits)

lemma TrackItem_item_ids:
  "map item_id (prices (store (snd (TrackItem e t w item)))) =
   map item_id (prices (store w)) @ (if fst (TrackItem e t w item) = None then [ID item] else [])"
  by (simp add: TrackItem_unfold split: sum.splits option.splits)

lemma TrackItem_failures:
  "failures (logs (snd (TrackItem e t w item))) = failures (logs w)"
  by (simp add: TrackItem_unfold failures_def Debug_def Info_def split: sum.splits option.splits)

text \<open>
  The loop of \<^verbatim>\<open>TrackAll\<close>, by induction on the items with the world generalised.
\<close>

lemma TrackAll_loop_props:
  "conn_err (store (TrackAll_loop e t items w)) = conn_err (store w) \<and>
   map item_id (prices (store (TrackAll_loop e t items w))) =
     map item_id (prices (store w)) @
     map ID (filter (\<lambda>item. fst (TrackItem e t w item) = None) items) \<and>
   failures (logs (TrackAll_loop e t items w)) =
     failures (logs w) + length (filter (\<lambda>item. fst (TrackItem e t w item) \<noteq> None) items)"
proof (induction items arbitrary: w)
  case Nil
  show ?case by simp
next
  case (Cons item items)
  obtain r w1 where tr: "TrackItem e t w item = (r, w1)" by (cases "TrackItem e t w item")
  have c1: "conn_err (store w1) = conn_err (store w)"
    using TrackItem_conn_err[of e t w item] tr by simp
  have ids: "map item_id (prices (store w1)) =
      map item_id (prices (store w)) @ (if r = None then [ID item] else [])"
    using TrackItem_item_ids[of e t w item] tr by simp
  have fl: "failures (logs w1) = failures (logs w)"
    using TrackItem_failures[of e t w item] tr by simp
  show ?case
  proof (cases r)
    case None
    have same: "\<And>i. fst (TrackItem e t w1 i) = fst (TrackItem e t w i)"
      using c1 by (rule TrackItem_status_conn)
    show ?thesis
      using Cons.IH[of w1] tr None c1 ids fl by (simp add: same)
  next
    case (Some err)
    let ?w2 = "w1\<lparr>logs := Error (logger t) ''Failed to track item''
                   [(''item'', VString (ID item)), (''error'', VError err)] (logs w1)\<rparr>"
    have c2: "conn_err (store ?w2) = conn_err (store w)" using c1 by simp
    have same: "\<And>i. fst (TrackItem e t ?w2 i) = fst (TrackItem e t w i)"
      using c2 by (rule TrackItem_status_conn)
    have fl2: "failures (logs ?w2) = Suc (failures (logs w))"
      using fl by (simp add: failures_def Error_def)
    show ?thesis
      using Cons.IH[of ?w2] tr Some c1 ids fl2 by (simp add: same)
  qed
qed

lemma threeItems_config: "Items (config (trackerOf threeItems)) = threeItems"
  by (simp add: trackerOf_def)

lemma oneDown_tracked:
  "map ID (filter (\<lambda>item. fst (TrackItem (tableEnv oneDown 100) (trackerOf threeItems)
       emptyWorld item) = None) threeItems) = [''a'', ''c'']"
  by (simp add: threeItems_def TrackItem_unfold tableEnv_def oneDown_def zeroItem_def
      emptyWorld_def marshalMeta_def)

lemma oneDown_failed:
  "length (filter (\<lambda>item. fst (TrackItem (tableEnv oneDown 100) (trackerOf threeItems)
       emptyWorld item) \<noteq> None) threeItems) = 1"
  by (simp add: threeItems_def TrackItem_unfold tableEnv_def oneDown_def zeroItem_def
      emptyWorld_def marshalMeta_def)

text \<open>
  Claim C4, as the code has it. \<^verbatim>\<open>TrackAll\<close> always returns \<^verbatim>\<open>nil\<close>; it has appended one
  row for every configured item whose \<^verbatim>\<open>TrackItem\<close> succeeds, in the order of the
  configuration, whatever happened to the items before it; and it has logged one
  \<^verbatim>\<open>"Failed to track item"\<close> record for every item whose \<^verbatim>\<open>TrackItem\<close> fails. The count of
  failures is in the log only, not in the status returned.
\<close>

theorem TrackAll_continues_and_returns_nil:
  "fst (TrackAll e t w) = None \<and>
   map item_id (prices (store (snd (TrackAll e t w)))) =
     map item_id (prices (store w)) @
     map ID (filter (\<lambda>item. fst (TrackItem e t w item) = None) (Items (config t))) \<and>
   failures (logs (snd (TrackAll e t w))) =
     failures (logs w) +
     length (filter (\<lambda>item. fst (TrackItem e t w item) \<noteq> None) (Items (config t)))"
proof -
  let ?w0 = "w\<lparr>logs := Info (logger t) ''Starting price tracking for all items'' [] (logs w)\<rparr>"
  have same: "\<And>i. fst (TrackItem e t ?w0 i) = fst (TrackItem e t w i)"
    by (rule TrackItem_status_conn) simp
  have f0: "failures (logs ?w0) = failures (logs w)"
    by (simp add: failures_def Info_def)
  show ?thesis
    using TrackAll_loop_props[of e t "Items (config t)" ?w0]
    by (simp add: TrackAll_def Let_def same f0) (simp add: failures_def Info_def)
qed

text \<open>
  An instance: three items, the fetch of the second always fails. Samples are written
  for the first and the third, and one failure is logged.
\<close>

theorem TrackAll_continues_and_returns_nil_witness:
  "fst (TrackAll (tableEnv oneDown 100) (trackerOf threeItems) emptyWorld) = None \<and>
   map item_id (prices (store (snd (TrackAll (tableEnv oneDown 100) (trackerOf threeItems)
     emptyWorld)))) = [''a'', ''c''] \<and>
   failures (logs (snd (TrackAll (tableEnv oneDown 100) (trackerOf threeItems) emptyWorld))) = 1"
proof -
  have w: "prices (store emptyWorld) = []" "failures (logs emptyWorld) = 0"
    by (simp_all add: emptyWorld_def failures_def)
  show ?thesis
    using TrackAll_continues_and_returns_nil
      [of "tableEnv oneDown 100" "trackerOf threeItems" emptyWorld] oneDown_failed
    by (simp add: threeItems_config oneDown_tracked w)
qed

text \<open>
  The status does not report the count: it is the same \<^verbatim>\<open>nil\<close> when one of the three
  items fails and when none does.
\<close>

theorem TrackAll_status_counterexample:
  "length (filter (\<lambda>item. fst (TrackItem (tableEnv oneDown 100) (trackerOf threeItems)
       emptyWorld item) \<noteq> None) threeItems) = 1 \<and>
   length (filter (\<lambda>item. fst (TrackItem (tableEnv allUp 100) (trackerOf threeItems)
       emptyWorld item) \<noteq> None) threeItems) = 0 \<and>
   fst (TrackAll (tableEnv oneDown 100) (trackerOf threeItems) emptyWorld) =
   fst (TrackAll (tableEnv allUp 100) (trackerOf threeItems) emptyWorld)"
  by (simp add: threeItems_def TrackItem_unfold tableEnv_def oneDown_def allUp_def zeroItem_def
      emptyWorld_def marshalMeta_def TrackAll_def)

subsection \<open>Notification fan-out\<close>

lemma Send_loop_attempts:
  "attempts (Send_loop send ns message out) = attempts out @ map (\<lambda>n. (n, message)) ns"
  by (induction ns arbitrary: out) (simp_all add: Let_def split: option.splits)

lemma Send_loop_stderr:
  "stderr (Send_loop send ns message out) =
     stderr out @
     map (\<lambda>err. ''Failed to send notification: '' @ error_string err @ [CHR 0x0A])
       (List.map_filter (\<lambda>n. send n message) ns)"
  by (induction ns arbitrary: out)
     (auto simp add: Let_def split: option.splits)

text \<open>
  Claim C7. Whatever the channels of the manager do, \<^verbatim>\<open>NotificationManager.Send\<close> returns
  \<^verbatim>\<open>nil\<close>, it has attempted one delivery of the message to every notifier of the manager,
  in order, and it has written one line to standard error for each delivery that failed.
\<close>

theorem Send_attempts_every_channel:
  "fst (Send send nm message out) = None \<and>
   attempts (snd (Send send nm message out)) =
     attempts out @ map (\<lambda>n. (n, message)) (notifiers nm) \<and>
   stderr (snd (Send send nm message out)) =
     stderr out @
     map (\<lambda>err. ''Failed to send notification: '' @ error_string err @ [CHR 0x0A])
       (List.map_filter (\<lambda>n. send n message) (notifiers nm))"
  by (simp add: Send_def Send_loop_attempts Send_loop_stderr)

text \<open>
  An instance: e-mail and Slack fail as their unimplemented \<^verbatim>\<open>Send\<close> does, ntfy between
  them delivers; all three are attempted and the call returns \<^verbatim>\<open>nil\<close>.
\<close>

theorem Send_attempts_every_channel_witness:
  "fst (Send (\<lambda>n m. case n of NtfyNotifier topic \<Rightarrow> None | _ \<Rightarrow> notifierSend n m)
          \<lparr>notifiers = [EmailNotifier ''a@x.org'' [''b@x.org''], NtfyNotifier ''deals'',
                        SlackNotifier ''hook'']\<rparr>
          ''drop'' \<lparr>attempts = [], stderr = []\<rparr>) = None \<and>
   attempts (snd (Send (\<lambda>n m. case n of NtfyNotifier topic \<Rightarrow> None | _ \<Rightarrow> notifierSend n m)
          \<lparr>notifiers = [EmailNotifier ''a@x.org'' [''b@x.org''], NtfyNotifier ''deals'',
                        SlackNotifier ''hook'']\<rparr>
          ''drop'' \<lparr>attempts = [], stderr = []\<rparr>)) =
     [(EmailNotifier ''a@x.org'' [''b@x.org''], ''drop''), (NtfyNotifier ''deals'', ''drop''),
      (SlackNotifier ''hook'', ''drop'')] \<and>
   length (stderr (snd (Send (\<lambda>n m. case n of NtfyNotifier topic \<Rightarrow> None | _ \<Rightarrow> notifierSend n m)
          \<lparr>notifiers = [EmailNotifier ''a@x.org'' [''b@x.org''], NtfyNotifier ''deals'',
                        SlackNotifier ''hook'']\<rparr>
          ''drop'' \<lparr>attempts = [], stderr = []\<rparr>))) = 2"
  using Send_attempts_every_channel
    [of "\<lambda>n m. case n of NtfyNotifier topic \<Rightarrow> None | _ \<Rightarrow> notifierSend n m"
        "\<lparr>notifiers = [EmailNotifier ''a@x.org'' [''b@x.org''], NtfyNotifier ''deals'',
                       SlackNotifier ''hook'']\<rparr>"
        "''drop''" "\<lparr>attempts = [], stderr = []\<rparr>"]
  by simp

text \<open>The manager that \<^verbatim>\<open>New\<close> builds holds the enabled channels and no other.\<close>

lemma NewNotificationManager_enabled:
  "length (notifiers (NewNotificationManager cfg)) =
     (if EmailEnabled (Email (Notifications cfg)) then 1 else 0) +
     (if TelegramEnabled (Telegram (Notifications cfg)) then 1 else 0) +
     (if SlackEnabled (Slack (Notifications cfg)) then 1 else 0) +
     (if NtfyEnabled (Ntfy (Notifications cfg)) then 1 else (0::nat))"
  by (simp add: NewNotificationManager_def)

subsection \<open>Retry backoff\<close>

lemma backoffBase_mono:
  assumes "0 \<le> BaseDelay rc" and "m \<le> n"
  shows "backoffBase rc m \<le> backoffBase rc n"
proof -
  have "(2::int) ^ (m - 2) \<le> 2 ^ (n - 2)"
    using assms(2) by (intro power_increasing) auto
  then have "BaseDelay rc * 2 ^ (m - 2) \<le> BaseDelay rc * 2 ^ (n - 2)"
    using assms(1) by (rule mult_left_mono)
  then show ?thesis
    unfolding backoffBase_def by (rule min.mono[OF order_refl])
qed

lemma sum_shifted:
  fixes b c :: int
  assumes "0 \<le> b"
  shows "(\<Sum>j = 0..b. (c + j)) = (b + 1) * c + (\<Sum>j = 0..b. j)"
  using assms by (simp add: sum.distrib algebra_simps)

lemma twice_sum_upto:
  fixes b :: int
  assumes "0 \<le> b"
  shows "2 * (\<Sum>j = 0..b. j) = b * (b + 1)"
  using assms
proof (induction b rule: int_ge_induct)
  case base
  show ?case by simp
next
  case (step i)
  have "{0..i + 1} = insert (i + 1) {0..i}" using step.hyps by auto
  then have "(\<Sum>j = 0..i + 1. j) = (i + 1) + (\<Sum>j = 0..i. j)" by simp
  with step.IH show ?case by (simp add: algebra_simps)
qed

text \<open>The mean of the jitter is half the base delay.\<close>

lemma expectedDelay_eq:
  assumes "0 \<le> BaseDelay rc"
  shows "expectedDelay rc n = real_of_int (backoffBase rc n) + real_of_int (BaseDelay rc) / 2"
proof -
  let ?b = "BaseDelay rc"
  have s: "(\<Sum>j = 0..?b. backoffDelay rc n j) = (?b + 1) * backoffBase rc n + (\<Sum>j = 0..?b. j)"
    unfolding backoffDelay_def using assms by (rule sum_shifted)
  have "real_of_int (2 * (\<Sum>j = 0..?b. j)) = real_of_int (?b * (?b + 1))"
    using twice_sum_upto[OF assms] by simp
  then have t: "real_of_int (\<Sum>j = 0..?b. j) = real_of_int ?b * real_of_int (?b + 1) / 2"
    by simp
  have nz: "real_of_int (?b + 1) \<noteq> 0" using assms by simp
  have "expectedDelay rc n =
        (real_of_int (?b + 1) * real_of_int (backoffBase rc n) +
         real_of_int ?b * real_of_int (?b + 1) / 2) / real_of_int (?b + 1)"
    unfolding expectedDelay_def s using t by simp
  also have "\<dots> = real_of_int (backoffBase rc n) + real_of_int ?b / 2"
    using nz by (simp add: field_simps)
  finally show ?thesis .
qed

text \<open>
  Claim C6. For a try \<open>n \<ge> 2\<close>, delays that are not negative and a jitter drawn from
  \<open>[0, baseDelay]\<close>: the delay is \<open>min(maxDelay, baseDelay * 2^(n-2))\<close> plus the jitter, it
  lies in \<open>[0, maxDelay + baseDelay]\<close>, its expectation does not decrease from try \<open>n\<close>
  to try \<open>n + 1\<close>, never exceeds \<open>maxDelay + baseDelay / 2\<close>, and stays the same once the
  exponential term has reached \<open>maxDelay\<close>.
\<close>

theorem backoffDelay_bounded_and_nondecreasing:
  assumes "2 \<le> n" and "0 \<le> BaseDelay rc" and "0 \<le> MaxDelay rc"
    and "0 \<le> jitter" and "jitter \<le> BaseDelay rc"
  shows "backoffDelay rc n jitter = min (MaxDelay rc) (BaseDelay rc * 2 ^ (n - 2)) + jitter \<and>
         0 \<le> backoffDelay rc n jitter \<and>
         backoffDelay rc n jitter \<le> MaxDelay rc + BaseDelay rc \<and>
         expectedDelay rc n \<le> expectedDelay rc (Suc n) \<and>
         expectedDelay rc n \<le> real_of_int (MaxDelay rc) + real_of_int (BaseDelay rc) / 2 \<and>
         (if MaxDelay rc \<le> BaseDelay rc * 2 ^ (n - 2)
          then expectedDelay rc (Suc n) = expectedDelay rc n
          else True)"
proof -
  have pos: "0 \<le> BaseDelay rc * 2 ^ (n - 2)" using assms(2) by simp
  have lo: "0 \<le> backoffBase rc n" unfolding backoffBase_def using assms(3) pos by simp
  have hi: "backoffBase rc n \<le> MaxDelay rc" unfolding backoffBase_def by simp
  have mono: "backoffBase rc n \<le> backoffBase rc (Suc n)"
    using assms(2) by (intro backoffBase_mono) auto
  have clamp: "backoffBase rc (Suc n) = backoffBase rc n"
    if c: "MaxDelay rc \<le> BaseDelay rc * 2 ^ (n - 2)"
  proof -
    have "BaseDelay rc * 2 ^ (n - 2) \<le> BaseDelay rc * 2 ^ (Suc n - 2)"
      using assms(2) by (intro mult_left_mono power_increasing) auto
    with c show ?thesis unfolding backoffBase_def by simp
  qed
  show ?thesis
    using lo hi mono clamp assms(4,5)
    by (simp add: expectedDelay_eq[OF assms(2)] backoffDelay_def) (simp add: backoffBase_def)
qed

text \<open>
  An instance with the defaults of \<^verbatim>\<open>Load\<close> (800 ms and 7 s): before the third try the
  exponential term is 1.6 s, and a jitter of 0.3 s gives a delay of 1.9 s.
\<close>

theorem backoffDelay_bounded_and_nondecreasing_witness:
  "(2::nat) \<le> 3 \<and> 0 \<le> BaseDelay (Retry (Defaults (setDefaults zeroConfig))) \<and>
   0 \<le> MaxDelay (Retry (Defaults (setDefaults zeroConfig))) \<and>
   (0::int) \<le> 300 * Millisecond \<and>
   300 * Millisecond \<le> BaseDelay (Retry (Defaults (setDefaults zeroConfig))) \<and>
   backoffDelay (Retry (Defaults (setDefaults zeroConfig))) 3 (300 * Millisecond) =
     1900 * Millisecond \<and>
   backoffDelay (Retry (Defaults (setDefaults zeroConfig))) 3 (300 * Millisecond) \<le>
     7 * Second + 800 * Millisecond \<and>
   expectedDelay (Retry (Defaults (setDefaults zeroConfig))) 3 \<le>
     expectedDelay (Retry (Defaults (setDefaults zeroConfig))) (Suc 3)"
proof -
  have r: "Retry (Defaults (setDefaults zeroConfig)) =
           \<lparr>Attempts = 3, BaseDelay = 800 * Millisecond, MaxDelay = 7 * Second\<rparr>"
    by (simp add: setDefaults_def zeroConfig_def defaultPercentDrop_def defaultWaitUntil_def
        defaultCacheTTL_def defaultHTTPTimeout_def defaultMaxDelay_def defaultBaseDelay_def
        defaultAttempts_def defaultUserAgent_def defaultTimezone_def defaultCurrency_def
        defaultPath_def defaultDriver_def Millisecond_def Second_def)
  have h: "(2::nat) \<le> 3" "0 \<le> BaseDelay (Retry (Defaults (setDefaults zeroConfig)))"
    "0 \<le> MaxDelay (Retry (Defaults (setDefaults zeroConfig)))"
    "(0::int) \<le> 300 * Millisecond"
    "300 * Millisecond \<le> BaseDelay (Retry (Defaults (setDefaults zeroConfig)))"
    by (simp_all add: r Millisecond_def Second_def)
  show ?thesis
    using h backoffDelay_bounded_and_nondecreasing[OF h]
    by (simp add: r Millisecond_def Second_def)
qed

end
